theory Spec2Isabelle
  imports Main "HOL-Library.Monad_Syntax"
begin

section \<open>Go strings and the standard-library functions the exporter calls\<close>

text \<open>
  A Go string is a sequence of bytes; it is modelled as a \<^typ>\<open>string\<close>, one \<^typ>\<open>char\<close>
  for each byte.
\<close>

definition isUpper :: "char \<Rightarrow> bool" where
  "isUpper c = (let n = (of_char c :: nat) in 65 \<le> n \<and> n \<le> 90)"

definition toLower_char :: "char \<Rightarrow> char" where
  "toLower_char c = (if isUpper c then char_of ((of_char c :: nat) + 32) else c)"

definition isASCII :: "string \<Rightarrow> bool" where
  \<comment> \<open>no byte is \<open>utf8.RuneSelf\<close> or above\<close>
  "isASCII s = list_all (\<lambda>c. (of_char c :: nat) < 128) s"

definition ToLower :: "(string \<Rightarrow> string) \<Rightarrow> string \<Rightarrow> string" where
  \<comment> \<open>\<open>strings.ToLower\<close>: byte by byte on ASCII text, \<open>strings.Map(unicode.ToLower, s)\<close> on
      any other; the latter is the first argument\<close>
  "ToLower mapUnicodeToLower s = (if isASCII s then map toLower_char s else mapUnicodeToLower s)"

definition Replace :: "string \<Rightarrow> char \<Rightarrow> string \<Rightarrow> string" where
  \<comment> \<open>\<open>strings.Replace(s, old, new, -1)\<close> for an \<open>old\<close> of one byte, the only use in the exporter\<close>
  "Replace s old new = concat (map (\<lambda>c. if c = old then new else [c]) s)"

definition isSpace :: "char \<Rightarrow> bool" where
  \<comment> \<open>tab, line feed, vertical tab, form feed, carriage return, blank\<close>
  "isSpace c = (let n = (of_char c :: nat) in n = 32 \<or> (9 \<le> n \<and> n \<le> 13))"

definition unicodeSpaces :: "string list" where
  \<comment> \<open>the UTF-8 encodings of the code points above 127 for which \<open>unicode.IsSpace\<close> holds:
      U+0085, U+00A0, U+1680, U+2000 to U+200A, U+2028, U+2029, U+202F, U+205F, U+3000\<close>
  "unicodeSpaces = map (map char_of)
     [[194, 133], [194, 160], [225, 154, 128],
      [226, 128, 128], [226, 128, 129], [226, 128, 130], [226, 128, 131], [226, 128, 132],
      [226, 128, 133], [226, 128, 134], [226, 128, 135], [226, 128, 136], [226, 128, 137],
      [226, 128, 138], [226, 128, 168], [226, 128, 169], [226, 128, 175], [226, 129, 159],
      [227, 128, 128 :: nat]]"

fun trimRunes :: "string list \<Rightarrow> string \<Rightarrow> string" where
  \<comment> \<open>drops from the front every ASCII space and every occurrence of one of the given byte
      sequences, up to the first byte that starts neither\<close>
  "trimRunes encs [] = []"
| "trimRunes encs (c # cs) =
     (if isSpace c then trimRunes encs cs
      else (case find (\<lambda>e. e \<noteq> [] \<and> take (length e) (c # cs) = e) encs of
              None \<Rightarrow> c # cs
            | Some e \<Rightarrow> trimRunes encs (drop (length e - 1) cs)))"

definition TrimSpace :: "string \<Rightarrow> string" where
  \<comment> \<open>\<open>strings.TrimSpace\<close>, that is \<open>TrimRightFunc(TrimLeftFunc(s, unicode.IsSpace),
      unicode.IsSpace)\<close>: a white-space rune at either end is an ASCII space or one of the
      encodings above, read forwards at the front and backwards at the end\<close>
  "TrimSpace s = rev (trimRunes (map rev unicodeSpaces) (rev (trimRunes unicodeSpaces s)))"

fun Contains :: "string \<Rightarrow> string \<Rightarrow> bool" where
  \<comment> \<open>\<open>strings.Contains(s, substr)\<close>\<close>
  "Contains [] substr = (substr = [])"
| "Contains (c # cs) substr =
     (take (length substr) (c # cs) = substr \<or> Contains cs substr)"

definition mapIndex :: "(string \<rightharpoonup> string) \<Rightarrow> string \<Rightarrow> string" where
  \<comment> \<open>\<open>m[k]\<close> on a \<open>map[string]string\<close>: a missing key reads as the empty string\<close>
  "mapIndex m k = (case m k of None \<Rightarrow> '''' | Some v \<Rightarrow> v)"

subsection \<open>Package \<open>time\<close>: parsing with the layout \<open>oracleDate\<close>\<close>

text \<open>
  \<open>const oracleDate = "2006/01/02:15:04:05"\<close>. \<open>time.Parse\<close> (Go 1.13, the version of
  \<open>go.mod\<close>) walks this layout as: a four-digit year, \<open>/\<close>, a two-digit month, \<open>/\<close>, a
  two-digit day, \<open>:\<close>, an hour of one or two digits, \<open>:\<close>, a two-digit minute, \<open>:\<close>, a
  two-digit second, and after the second it accepts a fraction \<open>.ddd\<close> that the layout does
  not name. The text has no zone, so \<open>time.Parse\<close> returns the time in UTC.
\<close>

datatype Time = Date (t_year: int) (t_month: int) (t_day: int) (t_hour: int) (t_min: int) (t_sec: int)

definition isDigit :: "string \<Rightarrow> nat \<Rightarrow> bool" where
  "isDigit s i =
     (if length s \<le> i then False
      else (let c = (of_char (s ! i) :: nat) in 48 \<le> c \<and> c \<le> 57))"

definition digitVal :: "char \<Rightarrow> int" where
  "digitVal c = int (of_char c) - 48"

definition getnum :: "string \<Rightarrow> bool \<Rightarrow> (int \<times> string) option" where
  "getnum s fixed =
     (if \<not> isDigit s 0 then None
      else if \<not> isDigit s 1 then
        (if fixed then None else Some (digitVal (s ! 0), drop 1 s))
      else Some (digitVal (s ! 0) * 10 + digitVal (s ! 1), drop 2 s))"

fun atoi_digits :: "string \<Rightarrow> int \<Rightarrow> int option" where
  \<comment> \<open>\<open>atoi\<close> on text whose first byte is a digit: every byte must be a digit\<close>
  "atoi_digits [] acc = Some acc"
| "atoi_digits (c # cs) acc =
     (if isDigit [c] 0 then atoi_digits cs (acc * 10 + digitVal c) else None)"

fun skip :: "string \<Rightarrow> string \<Rightarrow> string option" where
  \<comment> \<open>\<open>skip(value, prefix)\<close> for a prefix without blanks\<close>
  "skip v [] = Some v"
| "skip [] (p # ps) = None"
| "skip (c # cs) (p # ps) = (if c \<noteq> p then None else skip cs ps)"

definition isLeap :: "int \<Rightarrow> bool" where
  "isLeap y = (y mod 4 = 0 \<and> (y mod 100 \<noteq> 0 \<or> y mod 400 = 0))"

definition daysBefore :: "int list" where
  "daysBefore = [0, 31, 59, 90, 120, 151, 181, 212, 243, 273, 304, 334, 365]"

definition daysIn :: "int \<Rightarrow> int \<Rightarrow> int" where
  \<comment> \<open>only called with a month between 1 and 12\<close>
  "daysIn m y =
     (if m = 2 \<and> isLeap y then 29
      else daysBefore ! nat m - daysBefore ! nat (m - 1))"

definition guard :: "bool \<Rightarrow> unit option" where
  "guard b = (if b then Some () else None)"

definition fracSecond :: "string \<Rightarrow> string option" where
  \<comment> \<open>the fractional second after \<open>05\<close>: consumed when it reads below \<open>1e9\<close>, an error otherwise\<close>
  "fracSecond v =
     (if 2 \<le> length v \<and> v ! 0 = CHR ''.'' \<and> isDigit v 1 then
        (let n = 2 + length (takeWhile (\<lambda>c. isDigit [c] 0) (drop 2 v)) in
         case atoi_digits (take (n - 1) (drop 1 v)) 0 of
           None \<Rightarrow> None
         | Some ns \<Rightarrow> if 1000000000 \<le> ns then None else Some (drop n v))
      else Some v)"

definition time_Parse :: "string \<Rightarrow> Time option" where
  \<comment> \<open>\<open>time.Parse(oracleDate, value)\<close>; \<open>None\<close> is a non-nil error\<close>
  "time_Parse v0 = do {
     _ \<leftarrow> guard (\<not> (length v0 < 4 \<or> \<not> isDigit v0 0));
     year \<leftarrow> atoi_digits (take 4 v0) 0;
     v \<leftarrow> skip (drop 4 v0) ''/'';
     (month, v) \<leftarrow> getnum v True;
     _ \<leftarrow> guard (\<not> (month \<le> 0 \<or> 12 < month));
     v \<leftarrow> skip v ''/'';
     (day, v) \<leftarrow> getnum v True;
     v \<leftarrow> skip v '':'';
     (hour, v) \<leftarrow> getnum v False;
     _ \<leftarrow> guard (\<not> (hour < 0 \<or> 24 \<le> hour));
     v \<leftarrow> skip v '':'';
     (minute, v) \<leftarrow> getnum v True;
     _ \<leftarrow> guard (\<not> (minute < 0 \<or> 60 \<le> minute));
     v \<leftarrow> skip v '':'';
     (sec, v) \<leftarrow> getnum v True;
     _ \<leftarrow> guard (\<not> (sec < 0 \<or> 60 \<le> sec));
     v \<leftarrow> fracSecond v;
     _ \<leftarrow> guard (v = []);
     _ \<leftarrow> guard (\<not> (day < 1 \<or> daysIn month year < day));
     Some (Date year month day hour minute sec)
   }"

definition daysSinceEpoch :: "int \<Rightarrow> int \<Rightarrow> int \<Rightarrow> int" where
  \<comment> \<open>days from 1970-01-01 to the given day of the proleptic Gregorian calendar\<close>
  "daysSinceEpoch y m d =
     (let y1 = y - 1 in
      365 * y1 + y1 div 4 - y1 div 100 + y1 div 400
      + daysBefore ! nat (m - 1) + (if 2 < m \<and> isLeap y then 1 else 0)
      + (d - 1) - 719162)"

definition Unix :: "Time \<Rightarrow> int" where
  \<comment> \<open>\<open>t.Unix()\<close> of a time in UTC\<close>
  "Unix t =
     daysSinceEpoch (t_year t) (t_month t) (t_day t) * 86400
     + t_hour t * 3600 + t_min t * 60 + t_sec t"

subsection \<open>Package \<open>prometheus\<close>\<close>

definition BuildFQName :: "string \<Rightarrow> string \<Rightarrow> string \<Rightarrow> string" where
  \<comment> \<open>\<open>prometheus.BuildFQName(namespace, subsystem, name)\<close> of the client library: joins the
      non-empty components by \<open>_\<close>; an empty \<open>name\<close> gives the empty string\<close>
  "BuildFQName ns subsystem name =
     (if name = '''' then ''''
      else if ns \<noteq> '''' \<and> subsystem \<noteq> '''' then ns @ ''_'' @ subsystem @ ''_'' @ name
      else if ns \<noteq> '''' then ns @ ''_'' @ name
      else if subsystem \<noteq> '''' then subsystem @ ''_'' @ name
      else name)"

datatype ValueType = CounterValue | GaugeValue

text \<open>
  A sample is the argument tuple of one \<open>prometheus.MustNewConstMetric\<close> call whose result
  is sent on the channel: the descriptor's name, help and label names, the kind, the value
  and the label values. The type \<open>'f\<close> stands for \<open>float64\<close>.
\<close>

record 'f sample =
  fqName :: string
  helpStr :: string
  variableLabels :: "string list"
  valueType :: ValueType
  sampleValue :: 'f
  labelValues :: "string list"

subsection \<open>What is taken from the libraries as it is\<close>

text \<open>
  Four library functions are parameters of the development:
  \<^item> \<open>strconv_ParseFloat\<close> is \<open>strconv.ParseFloat(_, 64)\<close>, \<open>None\<close> when it returns an error;
  \<^item> \<open>float64\<close> is the conversion of an \<open>int64\<close> to \<open>float64\<close>;
  \<^item> \<open>unicode_ToLower\<close> is \<open>strings.Map(unicode.ToLower, _)\<close>, which \<open>strings.ToLower\<close>
    applies to a text with a byte above 127;
  \<^item> \<open>MustNewConstMetric_panics\<close> says, of a descriptor's name, help and label names and of
    the label values, whether \<open>prometheus.MustNewConstMetric\<close> panics: the client library
    rejects an invalid metric or label name, duplicate label names, a number of label values
    other than the number of label names, and a label value that is not UTF-8.
\<close>

record 'f library =
  strconv_ParseFloat :: "string \<Rightarrow> 'f option"
  float64 :: "int \<Rightarrow> 'f"
  unicode_ToLower :: "string \<Rightarrow> string"
  MustNewConstMetric_panics :: "string \<Rightarrow> string \<Rightarrow> string list \<Rightarrow> string list \<Rightarrow> bool"

section \<open>The exporter's data\<close>

text \<open>
  A Go \<open>error\<close> value is modelled by the text that its method \<open>Error()\<close> returns, which is
  all that a caller of the exporter's functions can tell of it: the exporter makes its own
  errors with \<open>errors.New\<close>, and the database layer is free to hand back an error with the
  same text.
\<close>

type_synonym error = string

text \<open>
  A scrape ends abnormally by a run-time panic (deferred calls still run) or by
  \<open>log.Fatalf\<close>, which exits the process at once.
\<close>

datatype abort = Panic string | Fatal string

datatype outcome = Returns "error option" | Aborts abort

record Metric =
  Context :: string
  Labels :: "string list"
  MetricsType :: "string \<rightharpoonup> string"
  MetricsDesc :: "(string \<times> string) list"
  FieldToAppend :: string
  Request :: string
  IgnoreZeroResult :: bool

text \<open>
  \<open>MetricsDesc\<close> is a Go map that the exporter only ranges over; it is given as the list of
  its entries (distinct keys) in the order the \<open>range\<close> statement visits them, which Go
  leaves unspecified.
\<close>

type_synonym sqlDB = nat

record dbEnvironment =
  sid :: string
  dsn :: string
  db :: "sqlDB option"

text \<open>The pointer \<open>env.db\<close> is \<open>None\<close> when it is nil.\<close>

subsection \<open>What the database answers\<close>

datatype ctxErr = ctxNil | Canceled | DeadlineExceeded

datatype scan = ScanError error | Scanned "string list" | NextPanics

text \<open>
  One \<open>QueryContext\<close> call and the iteration over its rows: the value of \<open>ctx.Err()\<close> when
  the call has returned, the error of the call, what \<open>rows.Columns()\<close> returns, and for
  each \<open>rows.Next()\<close> that is true what \<open>rows.Scan\<close> returns: an error, or the scanned
  values, each already rendered by \<open>fmt.Sprintf("%v", _)\<close>, one per column. \<open>NextPanics\<close>
  is a call of \<open>rows.Next()\<close> that panics, as it does on a \<open>Rows\<close> without driver rows.
  \<open>rows_Err\<close> is what \<open>rows.Err()\<close> would return once \<open>rows.Next()\<close> is false, for
  instance the context's error when the deadline has closed the rows; the exporter never
  reads it. The deadline (the flag \<open>query.timeout\<close>, in seconds) is real time: whether it
  has passed is part of the answer.

  The database is a function of the handle and the text sent to it: during one scrape the
  same query on the same handle is answered alike. \<open>sql_Open\<close> gives both results of
  \<open>sql.Open\<close>, the pointer and the error.
\<close>

record queryReply =
  ctx_Err :: ctxErr
  queryErr :: "error option"
  rows_Columns :: "error + string list"
  rows_Next :: "scan list"
  rows_Err :: "error option"

record world =
  db_Ping :: "sqlDB \<Rightarrow> error option"
  sql_Open :: "string \<Rightarrow> sqlDB option \<times> error option"
  db_QueryContext :: "sqlDB \<Rightarrow> string \<Rightarrow> queryReply"

subsection \<open>What a scrape does\<close>

text \<open>
  The calls a scrape makes on the database handle, on the exporter's own metric vectors
  and on the output channel, in program order. \<open>Duration_Set\<close> stands for setting the
  duration gauge; the measured time itself is not modelled.
\<close>

datatype 'f event =
    TotalScrapes_Inc string
  | Duration_Set string
  | Err_Set string nat
  | Up_Set string nat
  | ScrapeErrors_Inc string string
  | Wg_Done
  | DB_Ping sqlDB
  | Sql_Open string
  | DB_Close sqlDB
  | DB_SetMaxOpenConns sqlDB nat
  | DB_SetMaxIdleConns sqlDB nat
  | DB_SetConnMaxLifetime sqlDB nat
  | DB_QueryContext sqlDB string
  | Send "'f sample"

fun sends :: "'f event list \<Rightarrow> 'f sample list" where
  "sends [] = []"
| "sends (Send s # es) = s # sends es"
| "sends (_ # es) = sends es"



fun scrapeErrorsIncs :: "'f event list \<Rightarrow> (string \<times> string) list" where
  "scrapeErrorsIncs [] = []"
| "scrapeErrorsIncs (ScrapeErrors_Inc c s # es) = (c, s) # scrapeErrorsIncs es"
| "scrapeErrorsIncs (_ # es) = scrapeErrorsIncs es"

section \<open>The exporter\<close>

definition namespace :: string where
  "namespace = ''oracledb''"

definition NewExporter_metric :: "Metric \<Rightarrow> Metric" where
  \<comment> \<open>\<open>NewExporter\<close>: \<open>metric.Labels = append(metric.Labels, "sid")\<close>\<close>
  "NewExporter_metric metric = metric\<lparr>Labels := Labels metric @ [''sid'']\<rparr>"

definition cleanName :: "'f library \<Rightarrow> string \<Rightarrow> string" where
  "cleanName lib s0 =
     (let s = Replace s0 (CHR '' '') ''_'';
          s = Replace s (CHR ''('') '''';
          s = Replace s (CHR '')'') '''';
          s = Replace s (CHR ''/'') '''';
          s = ToLower (unicode_ToLower lib) s
      in s)"

definition strToPromType :: "string \<rightharpoonup> ValueType" where
  "strToPromType = [''gauge'' \<mapsto> GaugeValue, ''counter'' \<mapsto> CounterValue]"

definition GetMetricType :: "'f library \<Rightarrow> string \<Rightarrow> (string \<rightharpoonup> string) \<Rightarrow> abort + ValueType" where
  "GetMetricType lib metricType metricsType =
     (case metricsType (ToLower (unicode_ToLower lib) metricType) of
        None \<Rightarrow> Inr GaugeValue
      | Some strType \<Rightarrow>
          (case strToPromType (ToLower (unicode_ToLower lib) strType) of
             None \<Rightarrow> Inl (Fatal ''failed getting prometheus type from str type'')
           | Some vt \<Rightarrow> Inr vt))"

text \<open>
  The state of the closure \<open>genericParser\<close>: what it has sent on \<open>ch\<close> and the counter
  \<open>metricsCount\<close> of \<open>ScrapeGenericValues\<close> that it increments.
\<close>

record 'f parser =
  events :: "'f event list"
  metricsCount :: nat

text \<open>
  The value of one column of \<open>metricsDesc\<close> in a row; \<open>None\<close> is the \<open>continue\<close> of the loop.
\<close>

definition metricValue :: "'f library \<Rightarrow> (string \<rightharpoonup> string) \<Rightarrow> string \<Rightarrow> 'f option" where
  "metricValue lib row metric =
     (case strconv_ParseFloat lib (TrimSpace (mapIndex row metric)) of
        Some v \<Rightarrow> Some v
      | None \<Rightarrow>
          (case time_Parse (TrimSpace (mapIndex row metric)) of
             None \<Rightarrow> None
           | Some t \<Rightarrow> Some (float64 lib (Unix t))))"

definition metricName ::
  "'f library \<Rightarrow> string \<Rightarrow> string \<Rightarrow> (string \<rightharpoonup> string) \<Rightarrow> string \<Rightarrow> string" where
  \<comment> \<open>the first argument of \<open>prometheus.NewDesc\<close> in the two branches on \<open>fieldToAppend\<close>\<close>
  "metricName lib context fieldToAppend row metric =
     (if fieldToAppend = '''' then BuildFQName namespace context metric
      else BuildFQName namespace context (cleanName lib (mapIndex row fieldToAppend)))"

fun metricsDescLoop ::
  "'f library \<Rightarrow> string \<Rightarrow> string list \<Rightarrow> (string \<rightharpoonup> string)
   \<Rightarrow> string \<Rightarrow> (string \<rightharpoonup> string) \<Rightarrow> string list \<Rightarrow> (string \<times> string) list
   \<Rightarrow> 'f parser \<Rightarrow> 'f parser \<times> outcome" where
  "metricsDescLoop lib context labels metricsType fieldToAppend row
       labelsValues [] st = (st, Returns None)"
| "metricsDescLoop lib context labels metricsType fieldToAppend row
       labelsValues ((metric, metricHelp) # rest) st =
     (case metricValue lib row metric of
        None \<Rightarrow>
          metricsDescLoop lib context labels metricsType fieldToAppend row
            labelsValues rest st
      | Some v \<Rightarrow>
          (case GetMetricType lib metric metricsType of
             Inl a \<Rightarrow> (st, Aborts a)
           | Inr vt \<Rightarrow>
               if MustNewConstMetric_panics lib (metricName lib context fieldToAppend row metric)
                    metricHelp labels labelsValues
               then (st, Aborts (Panic ''MustNewConstMetric''))
               else
                 metricsDescLoop lib context labels metricsType fieldToAppend row
                   labelsValues rest
                   (st\<lparr>events := events st @
                          [Send \<lparr>fqName = metricName lib context fieldToAppend row metric,
                                 helpStr = metricHelp, variableLabels = labels,
                                 valueType = vt, sampleValue = v, labelValues = labelsValues\<rparr>],
                       metricsCount := metricsCount st + 1\<rparr>)))"

definition genericParser ::
  "'f library \<Rightarrow> string \<Rightarrow> string \<Rightarrow> string list
   \<Rightarrow> (string \<times> string) list \<Rightarrow> (string \<rightharpoonup> string) \<Rightarrow> string
   \<Rightarrow> (string \<rightharpoonup> string) \<Rightarrow> 'f parser \<Rightarrow> 'f parser \<times> outcome" where
  "genericParser lib env context labels metricsDesc metricsType fieldToAppend row st =
     (if labels = [] then (st, Aborts (Panic ''slice bounds out of range''))
      else
        (let labelsValues = map (mapIndex row) (take (length labels - 1) labels);
             labelsValues = labelsValues @ [env]
         in metricsDescLoop lib context labels metricsType fieldToAppend row
              labelsValues metricsDesc st))"

definition rowMap :: "'f library \<Rightarrow> string list \<Rightarrow> string list \<Rightarrow> (string \<rightharpoonup> string)" where
  \<comment> \<open>\<open>m[strings.ToLower(colName)] = fmt.Sprintf("%v", *val)\<close> for every column, in order\<close>
  "rowMap lib cols vals =
     fold (\<lambda>(colName, val) m. m(ToLower (unicode_ToLower lib) colName \<mapsto> val))
       (zip cols vals) Map.empty"

fun rowsLoop ::
  "'f library \<Rightarrow> ((string \<rightharpoonup> string) \<Rightarrow> 'f parser \<Rightarrow> 'f parser \<times> outcome) \<Rightarrow> string list
   \<Rightarrow> scan list \<Rightarrow> 'f parser \<Rightarrow> 'f parser \<times> outcome" where
  "rowsLoop lib parse cols [] st = (st, Returns None)"
| "rowsLoop lib parse cols (NextPanics # rest) st =
     (st, Aborts (Panic ''nil pointer dereference''))"
| "rowsLoop lib parse cols (ScanError e # rest) st = (st, Returns (Some e))"
| "rowsLoop lib parse cols (Scanned vals # rest) st =
     (case parse (rowMap lib cols vals) st of
        (st', Returns None) \<Rightarrow> rowsLoop lib parse cols rest st'
      | (st', r) \<Rightarrow> (st', r))"

definition GeneratePrometheusMetrics ::
  "'f library \<Rightarrow> world \<Rightarrow> sqlDB option
   \<Rightarrow> ((string \<rightharpoonup> string) \<Rightarrow> 'f parser \<Rightarrow> 'f parser \<times> outcome)
   \<Rightarrow> string \<Rightarrow> 'f parser \<Rightarrow> 'f parser \<times> outcome" where
  "GeneratePrometheusMetrics lib w conn parse query st =
     (case conn of
        None \<Rightarrow> (st, Aborts (Panic ''nil pointer dereference''))
      | Some h \<Rightarrow>
          (let reply = db_QueryContext w h query;
               st = st\<lparr>events := events st @ [DB_QueryContext h query]\<rparr>
           in if ctx_Err reply = DeadlineExceeded then
                (st, Returns (Some ''oracle query timed out''))
              else
                (case queryErr reply of
                   Some e \<Rightarrow> (st, Returns (Some e))
                 | None \<Rightarrow>
                     (let cols = (case rows_Columns reply of Inl e \<Rightarrow> [] | Inr cs \<Rightarrow> cs)
                      in rowsLoop lib parse cols (rows_Next reply) st))))"

definition ScrapeGenericValues ::
  "'f library \<Rightarrow> world \<Rightarrow> string \<Rightarrow> sqlDB option \<Rightarrow> string
   \<Rightarrow> string list \<Rightarrow> (string \<times> string) list \<Rightarrow> (string \<rightharpoonup> string) \<Rightarrow> string \<Rightarrow> bool
   \<Rightarrow> string \<Rightarrow> 'f event list \<times> outcome" where
  "ScrapeGenericValues lib w env conn context labels metricsDesc metricsType
       fieldToAppend ignoreZeroResult request =
     (case GeneratePrometheusMetrics lib w conn
             (genericParser lib env context labels metricsDesc metricsType fieldToAppend)
             request \<lparr>events = [], metricsCount = 0\<rparr> of
        (st, Aborts a) \<Rightarrow> (events st, Aborts a)
      | (st, Returns (Some e)) \<Rightarrow> (events st, Returns (Some e))
      | (st, Returns None) \<Rightarrow>
          if \<not> ignoreZeroResult \<and> metricsCount st = 0 then
            (events st, Returns (Some ''no metrics found while parsing''))
          else (events st, Returns None))"

definition ScrapeMetric ::
  "'f library \<Rightarrow> world \<Rightarrow> string \<Rightarrow> sqlDB option \<Rightarrow> Metric \<Rightarrow> 'f event list \<times> outcome" where
  "ScrapeMetric lib w env conn metricDefinition =
     ScrapeGenericValues lib w env conn (Context metricDefinition)
       (Labels metricDefinition) (MetricsDesc metricDefinition) (MetricsType metricDefinition)
       (FieldToAppend metricDefinition) (IgnoreZeroResult metricDefinition)
       (Request metricDefinition)"

text \<open>
  The result of the body of \<open>scrapeEnv\<close>: the calls made, the value of the variable \<open>err\<close>
  that the deferred function reads, the pointer left in \<open>env.db\<close>, and how the body ended.
\<close>

record 'f scrape =
  trace :: "'f event list"
  err :: "error option"
  env_db :: "sqlDB option"
  ended :: "abort option"

fun metricsLoop ::
  "'f library \<Rightarrow> world \<Rightarrow> string \<Rightarrow> sqlDB option \<Rightarrow> Metric list
   \<Rightarrow> error option \<Rightarrow> 'f event list \<times> error option \<times> abort option" where
  "metricsLoop lib w s conn [] e = ([], e, None)"
| "metricsLoop lib w s conn (metric # rest) e =
     (case ScrapeMetric lib w s conn metric of
        (evs, Aborts a) \<Rightarrow> (evs, e, Some a)
      | (evs, Returns None) \<Rightarrow>
          (case metricsLoop lib w s conn rest None of
             (evs', e', a) \<Rightarrow> (evs @ evs', e', a))
      | (evs, Returns (Some e1)) \<Rightarrow>
          (case metricsLoop lib w s conn rest (Some e1) of
             (evs', e', a) \<Rightarrow> (evs @ [ScrapeErrors_Inc (Context metric) s] @ evs', e', a)))"

definition scrapeMetrics ::
  "'f library \<Rightarrow> world \<Rightarrow> Metric list \<Rightarrow> dbEnvironment
   \<Rightarrow> 'f event list \<Rightarrow> error option \<Rightarrow> 'f scrape" where
  \<comment> \<open>from \<open>e.up.WithLabelValues(env.sid).Set(1)\<close> to the end of the body\<close>
  "scrapeMetrics lib w metricsToScrap env pre e =
     (case metricsLoop lib w (sid env) (db env) metricsToScrap e of
        (evs, e', a) \<Rightarrow>
          \<lparr>trace = pre @ [Up_Set (sid env) 1] @ evs, err = e', env_db = db env, ended = a\<rparr>)"

definition scrapeBody ::
  "'f library \<Rightarrow> world \<Rightarrow> Metric list \<Rightarrow> dbEnvironment \<Rightarrow> 'f scrape" where
  "scrapeBody lib w metricsToScrap env =
     (case db env of
        None \<Rightarrow> \<lparr>trace = [], err = None, env_db = None,
                  ended = Some (Panic ''nil pointer dereference'')\<rparr>
      | Some h \<Rightarrow>
          (case db_Ping w h of
             None \<Rightarrow> scrapeMetrics lib w metricsToScrap env [DB_Ping h] None
           | Some e \<Rightarrow>
               if Contains e ''sql: database is closed'' then
                 (case sql_Open w (dsn env) of
                    (h', Some e') \<Rightarrow>
                      (case h' of
                         None \<Rightarrow> \<lparr>trace = [DB_Ping h, Sql_Open (dsn env)], err = Some e',
                                   env_db = None,
                                   ended = Some (Panic ''nil pointer dereference'')\<rparr>
                       | Some n \<Rightarrow> \<lparr>trace = [DB_Ping h, Sql_Open (dsn env), DB_Close n,
                                              Up_Set (sid env) 0],
                                     err = Some e', env_db = Some n, ended = None\<rparr>)
                  | (h', None) \<Rightarrow>
                      (case h' of
                         None \<Rightarrow> \<lparr>trace = [DB_Ping h, Sql_Open (dsn env)], err = None,
                                   env_db = None,
                                   ended = Some (Panic ''nil pointer dereference'')\<rparr>
                       | Some n \<Rightarrow>
                           scrapeMetrics lib w metricsToScrap (env\<lparr>db := Some n\<rparr>)
                             [DB_Ping h, Sql_Open (dsn env), DB_SetMaxOpenConns n 1,
                              DB_SetMaxIdleConns n 1, DB_SetConnMaxLifetime n 2]
                             None))
               else scrapeMetrics lib w metricsToScrap env [DB_Ping h] (Some e)))"

definition scrapeEnv ::
  "'f library \<Rightarrow> world \<Rightarrow> Metric list \<Rightarrow> dbEnvironment \<Rightarrow> 'f scrape" where
  \<comment> \<open>the counter of scrapes, the body, then the deferred function unless the process exited\<close>
  "scrapeEnv lib w metricsToScrap env =
     (let r = scrapeBody lib w metricsToScrap env;
          deferred = (case ended r of
                        Some (Fatal _) \<Rightarrow> []
                      | _ \<Rightarrow> [Duration_Set (sid env),
                              Err_Set (sid env) (if err r = None then 0 else 1),
                              Wg_Done])
      in r\<lparr>trace := [TotalScrapes_Inc (sid env)] @ trace r @ deferred\<rparr>)"

section \<open>The specification's wording of the sample name\<close>

definition spec_sanitize :: "'f library \<Rightarrow> string \<Rightarrow> string" where
  \<comment> \<open>"lower-cases the value and strips spaces, parentheses, and slashes"\<close>
  "spec_sanitize lib s =
     ToLower (unicode_ToLower lib)
       (filter (\<lambda>c. c \<notin> {CHR '' '', CHR ''('', CHR '')'', CHR ''/''}) s)"

definition spec_sample_name ::
  "'f library \<Rightarrow> string \<Rightarrow> string \<Rightarrow> (string \<rightharpoonup> string) \<Rightarrow> string \<Rightarrow> string" where
  \<comment> \<open>"context + _ + column" when \<open>fieldToAppend\<close> is empty, otherwise
      "context + _ + sanitize(row[fieldToAppend])"\<close>
  "spec_sample_name lib context fieldToAppend row column =
     (if fieldToAppend = '''' then context @ ''_'' @ column
      else context @ ''_'' @ spec_sanitize lib (mapIndex row fieldToAppend))"

section \<open>Traces\<close>

lemma sends_append: "sends (xs @ ys) = sends xs @ sends ys"
  by (induction xs rule: sends.induct) simp_all



lemma scrapeErrorsIncs_append:
  "scrapeErrorsIncs (xs @ ys) = scrapeErrorsIncs xs @ scrapeErrorsIncs ys"
  by (induction xs rule: scrapeErrorsIncs.induct) simp_all

lemma sends_map_Send: "sends (map Send ss) = ss"
  by (induction ss) simp_all



lemma scrapeErrorsIncs_map_Send: "scrapeErrorsIncs (map Send ss) = []"
  by (induction ss) simp_all

lemma new_sends:
  assumes "events st' = events st @ map Send ss"
  shows "drop (length (sends (events st))) (sends (events st')) = ss"
  using assms by (simp add: sends_append sends_map_Send)

subsection \<open>One row\<close>

text \<open>
  What the loop over \<open>metricsDesc\<close> adds to the state: only sends, one increment of the
  counter for each, and every sample sent is the one built from a column of the list that
  has a value in the row.
\<close>

lemma metricsDescLoop_sent:
  "\<exists>ss. events (fst (metricsDescLoop lib ctx labels mt f row lv md st)) = events st @ map Send ss
      \<and> metricsCount (fst (metricsDescLoop lib ctx labels mt f row lv md st))
          = metricsCount st + length ss
      \<and> (\<forall>s \<in> set ss. \<exists>metric hlp v vt.
            (metric, hlp) \<in> set md \<and> metricValue lib row metric = Some v
            \<and> GetMetricType lib metric mt = Inr vt
            \<and> s = \<lparr>fqName = metricName lib ctx f row metric, helpStr = hlp,
                    variableLabels = labels, valueType = vt, sampleValue = v,
                    labelValues = lv\<rparr>)"
proof (induction md arbitrary: st)
  case Nil
  show ?case by (rule exI[of _ "[]"]) simp
next
  case (Cons p md)
  obtain metric hlp where p: "p = (metric, hlp)" by (cases p)
  show ?case
  proof (cases "metricValue lib row metric")
    case None
    from Cons[of st] obtain ss where
      "events (fst (metricsDescLoop lib ctx labels mt f row lv md st)) = events st @ map Send ss"
      "metricsCount (fst (metricsDescLoop lib ctx labels mt f row lv md st))
          = metricsCount st + length ss"
      "\<forall>s \<in> set ss. \<exists>metric hlp v vt.
            (metric, hlp) \<in> set md \<and> metricValue lib row metric = Some v
            \<and> GetMetricType lib metric mt = Inr vt
            \<and> s = \<lparr>fqName = metricName lib ctx f row metric, helpStr = hlp,
                    variableLabels = labels, valueType = vt, sampleValue = v,
                    labelValues = lv\<rparr>"
      by blast
    then have "events (fst (metricsDescLoop lib ctx labels mt f row lv md st)) = events st @ map Send ss
      \<and> metricsCount (fst (metricsDescLoop lib ctx labels mt f row lv md st))
          = metricsCount st + length ss
      \<and> (\<forall>s \<in> set ss. \<exists>metric hlp v vt.
            (metric, hlp) \<in> set (p # md) \<and> metricValue lib row metric = Some v
            \<and> GetMetricType lib metric mt = Inr vt
            \<and> s = \<lparr>fqName = metricName lib ctx f row metric, helpStr = hlp,
                    variableLabels = labels, valueType = vt, sampleValue = v,
                    labelValues = lv\<rparr>)"
      by (simp del: sample.ext_inject) blast
    moreover have "metricsDescLoop lib ctx labels mt f row lv (p # md) st
                    = metricsDescLoop lib ctx labels mt f row lv md st"
      using p None by simp
    ultimately show ?thesis by (intro exI[of _ ss]) simp
  next
    case (Some v)
    show ?thesis
    proof (cases "GetMetricType lib metric mt")
      case (Inl a)
      with p Some show ?thesis by (intro exI[of _ "[]"]) simp
    next
      case (Inr vt)
      show ?thesis
      proof (cases "MustNewConstMetric_panics lib (metricName lib ctx f row metric) hlp labels lv")
        case True
        with p Some Inr show ?thesis by (intro exI[of _ "[]"]) simp
      next
        case False
        let ?smp = "\<lparr>fqName = metricName lib ctx f row metric, helpStr = hlp,
                  variableLabels = labels, valueType = vt, sampleValue = v, labelValues = lv\<rparr>"
        let ?st = "st\<lparr>events := events st @ [Send ?smp], metricsCount := metricsCount st + 1\<rparr>"
        have step: "metricsDescLoop lib ctx labels mt f row lv (p # md) st
                    = metricsDescLoop lib ctx labels mt f row lv md ?st"
          using p Some Inr False by simp
        from Cons[of ?st] obtain ss where
          ev: "events (fst (metricsDescLoop lib ctx labels mt f row lv md ?st))
                 = events ?st @ map Send ss"
          and cnt: "metricsCount (fst (metricsDescLoop lib ctx labels mt f row lv md ?st))
                 = metricsCount ?st + length ss"
          and each: "\<forall>s \<in> set ss. \<exists>metric hlp v vt.
            (metric, hlp) \<in> set md \<and> metricValue lib row metric = Some v
            \<and> GetMetricType lib metric mt = Inr vt
            \<and> s = \<lparr>fqName = metricName lib ctx f row metric, helpStr = hlp,
                    variableLabels = labels, valueType = vt, sampleValue = v,
                    labelValues = lv\<rparr>"
          by blast
        have "\<forall>s \<in> set (?smp # ss). \<exists>metric hlp v vt.
            (metric, hlp) \<in> set (p # md) \<and> metricValue lib row metric = Some v
            \<and> GetMetricType lib metric mt = Inr vt
            \<and> s = \<lparr>fqName = metricName lib ctx f row metric, helpStr = hlp,
                    variableLabels = labels, valueType = vt, sampleValue = v,
                    labelValues = lv\<rparr>"
        proof
          fix s assume "s \<in> set (?smp # ss)"
          then consider "s = ?smp" | "s \<in> set ss" by auto
          then show "\<exists>metric hlp v vt.
            (metric, hlp) \<in> set (p # md) \<and> metricValue lib row metric = Some v
            \<and> GetMetricType lib metric mt = Inr vt
            \<and> s = \<lparr>fqName = metricName lib ctx f row metric, helpStr = hlp,
                    variableLabels = labels, valueType = vt, sampleValue = v,
                    labelValues = lv\<rparr>"
          proof cases
            case 1
            with p Some Inr show ?thesis by auto
          next
            case 2
            with each obtain metric' hlp' v' vt' where
              "(metric', hlp') \<in> set md" "metricValue lib row metric' = Some v'"
              "GetMetricType lib metric' mt = Inr vt'"
              "s = \<lparr>fqName = metricName lib ctx f row metric', helpStr = hlp',
                    variableLabels = labels, valueType = vt', sampleValue = v',
                    labelValues = lv\<rparr>"
              by blast
            then show ?thesis by auto
          qed
        qed
        with step ev cnt show ?thesis by (intro exI[of _ "?smp # ss"]) simp
      qed
    qed
  qed
qed


lemma genericParser_sent:
  "\<exists>ss. events (fst (genericParser lib env ctx labels md mt f row st)) = events st @ map Send ss
      \<and> metricsCount (fst (genericParser lib env ctx labels md mt f row st))
          = metricsCount st + length ss
      \<and> (\<forall>s \<in> set ss. labels \<noteq> [] \<and> (\<exists>metric hlp v vt.
            (metric, hlp) \<in> set md \<and> metricValue lib row metric = Some v
            \<and> GetMetricType lib metric mt = Inr vt
            \<and> s = \<lparr>fqName = metricName lib ctx f row metric, helpStr = hlp,
                    variableLabels = labels, valueType = vt, sampleValue = v,
                    labelValues = map (mapIndex row) (take (length labels - 1) labels) @ [env]\<rparr>))"
proof (cases "labels = []")
  case True
  then show ?thesis by (intro exI[of _ "[]"]) (simp add: genericParser_def)
next
  case False
  from metricsDescLoop_sent[of lib ctx labels mt f row
         "map (mapIndex row) (take (length labels - 1) labels) @ [env]" md st]
  show ?thesis using False by (simp add: genericParser_def)
qed


subsection \<open>All rows of a query\<close>

lemma rowsLoop_sent:
  assumes parse: "\<And>row st. \<exists>ss. events (fst (parse row st)) = events st @ map Send ss
                     \<and> metricsCount (fst (parse row st)) = metricsCount st + length ss"
  shows "\<exists>ss. events (fst (rowsLoop lib parse cols rs st)) = events st @ map Send ss
            \<and> metricsCount (fst (rowsLoop lib parse cols rs st)) = metricsCount st + length ss"
proof (induction rs arbitrary: st)
  case Nil
  show ?case by (intro exI[of _ "[]"]) simp
next
  case (Cons x rest)
  show ?case
  proof (cases x)
    case (ScanError e)
    then show ?thesis by (intro exI[of _ "[]"]) simp
  next
    case NextPanics
    then show ?thesis by (intro exI[of _ "[]"]) simp
  next
    case (Scanned vals)
    obtain st' r where pr: "parse (rowMap lib cols vals) st = (st', r)"
      by (cases "parse (rowMap lib cols vals) st")
    from parse[of "rowMap lib cols vals" st] pr obtain ss where
      ss: "events st' = events st @ map Send ss" "metricsCount st' = metricsCount st + length ss"
      by auto
    show ?thesis
    proof (cases "r = Returns None")
      case True
      from Cons.IH[of st'] obtain ss' where
        "events (fst (rowsLoop lib parse cols rest st')) = events st' @ map Send ss'"
        "metricsCount (fst (rowsLoop lib parse cols rest st')) = metricsCount st' + length ss'"
        by blast
      with Scanned pr True ss show ?thesis by (intro exI[of _ "ss @ ss'"]) simp
    next
      case False
      then have "rowsLoop lib parse cols (Scanned vals # rest) st = (st', r)"
        using pr by (cases r) (auto split: option.splits)
      with Scanned ss show ?thesis by (intro exI[of _ ss]) simp
    qed
  qed
qed


lemma GeneratePrometheusMetrics_sent:
  assumes parse: "\<And>row st. \<exists>ss. events (fst (parse row st)) = events st @ map Send ss
                     \<and> metricsCount (fst (parse row st)) = metricsCount st + length ss"
  shows "\<exists>ss. events (fst (GeneratePrometheusMetrics lib w (Some h) parse q st))
              = events st @ DB_QueryContext h q # map Send ss
            \<and> metricsCount (fst (GeneratePrometheusMetrics lib w (Some h) parse q st))
              = metricsCount st + length ss"
proof -
  let ?st = "st\<lparr>events := events st @ [DB_QueryContext h q]\<rparr>"
  let ?reply = "db_QueryContext w h q"
  show ?thesis
  proof (cases "ctx_Err ?reply = DeadlineExceeded \<or> queryErr ?reply \<noteq> None")
    case True
    then show ?thesis
      by (intro exI[of _ "[]"]) (auto simp: GeneratePrometheusMetrics_def Let_def)
  next
    case False
    obtain cols where cols: "cols = (case rows_Columns ?reply of Inl e \<Rightarrow> [] | Inr cs \<Rightarrow> cs)"
      by simp
    from rowsLoop_sent[of parse lib cols "rows_Next ?reply" ?st, OF parse]
    obtain ss where
      "events (fst (rowsLoop lib parse cols (rows_Next ?reply) ?st)) = events ?st @ map Send ss"
      "metricsCount (fst (rowsLoop lib parse cols (rows_Next ?reply) ?st))
         = metricsCount ?st + length ss"
      by blast
    with False cols show ?thesis
      by (intro exI[of _ ss]) (auto simp: GeneratePrometheusMetrics_def Let_def)
  qed
qed


subsection \<open>One definition, all definitions\<close>

lemma ScrapeGenericValues_fst:
  "fst (ScrapeGenericValues lib w env conn ctx labels md mt f ign request)
   = events (fst (GeneratePrometheusMetrics lib w conn
             (genericParser lib env ctx labels md mt f)
             request \<lparr>events = [], metricsCount = 0\<rparr>))"
  by (simp add: ScrapeGenericValues_def split: prod.splits outcome.splits option.splits)

lemma genericParser_only_sends:
  "\<exists>ss. events (fst (genericParser lib env ctx labels md mt f row st)) = events st @ map Send ss
      \<and> metricsCount (fst (genericParser lib env ctx labels md mt f row st))
          = metricsCount st + length ss"
  using genericParser_sent[of lib env ctx labels md mt f row st] by blast




lemma metricsLoop_step:
  assumes "ScrapeMetric lib w s conn m = (evs, Returns eo)"
  shows "metricsLoop lib w s conn (m # ms) e =
         (evs @ (if eo = None then [] else [ScrapeErrors_Inc (Context m) s])
              @ fst (metricsLoop lib w s conn ms eo),
          snd (metricsLoop lib w s conn ms eo))"
  using assms by (cases eo) (simp_all split: prod.splits)





section \<open>The query deadline\<close>




section \<open>The name fragment of a row\<close>

lemma cleanName_example: "cleanName lib ''Foo Bar(1)/2'' = ''foo_bar12''"
  by code_simp

text \<open>
  C6. When \<open>fieldToAppend\<close> names a column whose value in the row is \<open>Foo Bar(1)/2\<close>, the
  fragment that \<open>cleanName\<close> makes of it is exactly \<open>foo_bar12\<close>, and it is the last
  component of the sample's name.
\<close>

theorem cleanName_foo_bar:
  assumes "fieldToAppend \<noteq> ''''" and "mapIndex row fieldToAppend = ''Foo Bar(1)/2''"
  shows "cleanName lib (mapIndex row fieldToAppend) = ''foo_bar12''
         \<and> metricName lib ctx fieldToAppend row metric = BuildFQName namespace ctx ''foo_bar12''"
  using assms cleanName_example[of lib] by (simp add: metricName_def)

text \<open>
  C6, at a row whose column \<open>name\<close> holds \<open>Foo Bar(1)/2\<close>: the sample is named
  \<open>oracledb_wait_foo_bar12\<close>.
\<close>

theorem cleanName_foo_bar_witness:
  "''name'' \<noteq> '''' \<and> mapIndex [''name'' \<mapsto> ''Foo Bar(1)/2''] ''name'' = ''Foo Bar(1)/2''
   \<and> cleanName
        \<lparr>strconv_ParseFloat = (\<lambda>s. if s = ''42'' then Some (42::int) else None),
          float64 = (\<lambda>n. n), unicode_ToLower = (\<lambda>s. s),
          MustNewConstMetric_panics = (\<lambda>n h ls vs. False)\<rparr>
        (mapIndex [''name'' \<mapsto> ''Foo Bar(1)/2''] ''name'') = ''foo_bar12''
   \<and> metricName
        \<lparr>strconv_ParseFloat = (\<lambda>s. if s = ''42'' then Some (42::int) else None),
          float64 = (\<lambda>n. n), unicode_ToLower = (\<lambda>s. s),
          MustNewConstMetric_panics = (\<lambda>n h ls vs. False)\<rparr>
        ''wait'' ''name'' [''name'' \<mapsto> ''Foo Bar(1)/2''] ''value''
       = ''oracledb_wait_foo_bar12''"
proof -
  let ?lib = "\<lparr>strconv_ParseFloat = (\<lambda>s. if s = ''42'' then Some (42::int) else None),
          float64 = (\<lambda>n. n), unicode_ToLower = (\<lambda>s. s),
          MustNewConstMetric_panics = (\<lambda>n h ls vs. False)\<rparr>"
  have h1: "''name'' \<noteq> ''''" by simp
  have h2: "mapIndex [''name'' \<mapsto> ''Foo Bar(1)/2''] ''name'' = ''Foo Bar(1)/2''"
    by (simp add: mapIndex_def)
  have b: "BuildFQName namespace ''wait'' ''foo_bar12'' = ''oracledb_wait_foo_bar12''"
    by (simp add: BuildFQName_def namespace_def)
  from cleanName_foo_bar[OF h1 h2, of ?lib "''wait''" "''value''"] h1 h2 b show ?thesis by simp
qed

section \<open>The name of a sample\<close>

text \<open>
  C5 as worded fails. For the context \<open>sessions\<close>, \<open>fieldToAppend = status\<close> and a row whose
  \<open>status\<close> is \<open>In Use\<close>, the exporter names the sample \<open>oracledb_sessions_in_use\<close>: the
  namespace \<open>oracledb\<close> comes first and the blank becomes an underscore. The wording of
  C5 gives \<open>sessions_inuse\<close>.
\<close>

theorem sample_name_counterexample:
  "map fqName (sends (events (fst (genericParser
      \<lparr>strconv_ParseFloat = (\<lambda>s. if s = ''42'' then Some (42::int) else None),
        float64 = (\<lambda>n. n), unicode_ToLower = (\<lambda>s. s),
        MustNewConstMetric_panics = (\<lambda>n h ls vs. False)\<rparr>
      ''DB1'' ''sessions'' [''sid'']
      [(''value'', ''Sessions'')] Map.empty ''status''
      [''status'' \<mapsto> ''In Use'', ''value'' \<mapsto> ''42'']
      \<lparr>events = [], metricsCount = 0\<rparr>)))) = [''oracledb_sessions_in_use'']
   \<and> spec_sample_name
      \<lparr>strconv_ParseFloat = (\<lambda>s. if s = ''42'' then Some (42::int) else None),
        float64 = (\<lambda>n. n), unicode_ToLower = (\<lambda>s. s),
        MustNewConstMetric_panics = (\<lambda>n h ls vs. False)\<rparr>
      ''sessions'' ''status'' [''status'' \<mapsto> ''In Use'', ''value'' \<mapsto> ''42''] ''value''
       = ''sessions_inuse''"
  by code_simp

lemma Replace_Cons: "Replace (c # s) old new = (if c = old then new else [c]) @ Replace s old new"
  by (simp add: Replace_def)

lemma Replace_Nil: "Replace [] old new = []"
  by (simp add: Replace_def)

lemma Replace_append: "Replace (xs @ ys) old new = Replace xs old new @ Replace ys old new"
  by (simp add: Replace_def)

lemma cleanName_chars:
  "cleanName lib v = ToLower (unicode_ToLower lib)
      (concat (map (\<lambda>c. if c = CHR '' '' then ''_''
                      else if c \<in> {CHR ''('', CHR '')'', CHR ''/''} then [] else [c]) v))"
proof -
  have "Replace (Replace (Replace (Replace v (CHR '' '') ''_'') (CHR ''('') '''') (CHR '')'') '''')
          (CHR ''/'') ''''
        = concat (map (\<lambda>c. if c = CHR '' '' then ''_''
                      else if c \<in> {CHR ''('', CHR '')'', CHR ''/''} then [] else [c]) v)"
    by (induction v) (simp_all add: Replace_Cons Replace_Nil Replace_append)
  then show ?thesis by (simp add: cleanName_def)
qed

text \<open>
  When the loop over \<open>metricsDesc\<close> runs to its end, the names and helps of the samples it
  sends are those of the columns that have a value in the row, in the order of the range.
\<close>

lemma metricsDescLoop_names:
  "snd (metricsDescLoop lib ctx labels mt f row lv md st) = Returns None \<Longrightarrow>
   map (\<lambda>s. (fqName s, helpStr s))
     (sends (events (fst (metricsDescLoop lib ctx labels mt f row lv md st))))
   = map (\<lambda>s. (fqName s, helpStr s)) (sends (events st))
     @ map (\<lambda>(metric, hlp). (metricName lib ctx f row metric, hlp))
         (filter (\<lambda>(metric, hlp). metricValue lib row metric \<noteq> None) md)"
proof (induction md arbitrary: st)
  case Nil
  show ?case by simp
next
  case (Cons p md)
  obtain metric hlp where p: "p = (metric, hlp)" by (cases p)
  show ?case
  proof (cases "metricValue lib row metric")
    case None
    with Cons p show ?thesis by simp
  next
    case (Some v)
    show ?thesis
    proof (cases "GetMetricType lib metric mt")
      case (Inl a)
      with Cons.prems p Some show ?thesis by simp
    next
      case (Inr vt)
      show ?thesis
      proof (cases "MustNewConstMetric_panics lib (metricName lib ctx f row metric) hlp labels lv")
        case True
        with Cons.prems p Some Inr show ?thesis by simp
      next
        case False
        let ?smp = "\<lparr>fqName = metricName lib ctx f row metric, helpStr = hlp,
                  variableLabels = labels, valueType = vt, sampleValue = v, labelValues = lv\<rparr>"
        let ?st = "st\<lparr>events := events st @ [Send ?smp], metricsCount := metricsCount st + 1\<rparr>"
        have step: "metricsDescLoop lib ctx labels mt f row lv (p # md) st
                    = metricsDescLoop lib ctx labels mt f row lv md ?st"
          using p Some Inr False by simp
        with Cons.prems have "snd (metricsDescLoop lib ctx labels mt f row lv md ?st) = Returns None"
          by simp
        from Cons.IH[OF this] step p Some show ?thesis by (simp add: sends_append)
      qed
    qed
  qed
qed

text \<open>
  C5, amended. Every sample that \<open>genericParser\<close> sends for a row, in whatever state it is
  called, belongs to a column of \<open>metricsDesc\<close>: it carries the help text of that column,
  the value of that column in the row and the kind declared for it, and its name is
  \<open>prometheus.BuildFQName\<close> of the namespace \<open>oracledb\<close>, the context and a last component,
  which is that column when \<open>fieldToAppend\<close> is empty and \<open>cleanName(row[fieldToAppend])\<close>
  otherwise. When the row is parsed to its end, the names and helps of the samples sent are
  exactly those of the columns that have a value, in the order of the range. \<open>cleanName\<close>
  replaces each blank by an underscore, removes parentheses and slashes, and lower-cases
  the result with \<open>strings.ToLower\<close>. For a non-empty context and last component the name
  is \<open>oracledb_\<close> + context + \<open>_\<close> + component.
\<close>

theorem sample_name_amended:
  "(\<forall>s \<in> set (drop (length (sends (events st)))
                (sends (events (fst (genericParser lib env ctx labels md mt f row st))))).
      \<exists>(metric, hlp) \<in> set md.
         helpStr s = hlp \<and> metricValue lib row metric = Some (sampleValue s)
         \<and> GetMetricType lib metric mt = Inr (valueType s)
         \<and> fqName s = BuildFQName ''oracledb'' ctx
                         (if f = '''' then metric else cleanName lib (mapIndex row f)))
   \<and> (snd (genericParser lib env ctx labels md mt f row st) = Returns None \<longrightarrow>
        map (\<lambda>s. (fqName s, helpStr s))
          (drop (length (sends (events st)))
             (sends (events (fst (genericParser lib env ctx labels md mt f row st)))))
        = map (\<lambda>(metric, hlp).
                 (BuildFQName ''oracledb'' ctx
                    (if f = '''' then metric else cleanName lib (mapIndex row f)), hlp))
            (filter (\<lambda>(metric, hlp). metricValue lib row metric \<noteq> None) md))
   \<and> (\<forall>v. cleanName lib v = ToLower (unicode_ToLower lib)
              (concat (map (\<lambda>c. if c = CHR '' '' then ''_''
                      else if c \<in> {CHR ''('', CHR '')'', CHR ''/''} then [] else [c]) v)))
   \<and> (\<forall>name. ctx \<noteq> '''' \<and> name \<noteq> '''' \<longrightarrow>
         BuildFQName ''oracledb'' ctx name = ''oracledb_'' @ ctx @ ''_'' @ name)"
proof -
  let ?st' = "fst (genericParser lib env ctx labels md mt f row st)"
  let ?new = "drop (length (sends (events st))) (sends (events ?st'))"
  let ?lv = "map (mapIndex row) (take (length labels - 1) labels) @ [env]"
  have nm: "metricName lib ctx f row metric
            = BuildFQName ''oracledb'' ctx (if f = '''' then metric else cleanName lib (mapIndex row f))"
    for metric
    by (simp add: metricName_def namespace_def)
  from genericParser_sent[of lib env ctx labels md mt f row st] obtain ss where
    ev: "events ?st' = events st @ map Send ss"
    and each: "\<forall>s \<in> set ss. labels \<noteq> [] \<and> (\<exists>metric hlp v vt.
            (metric, hlp) \<in> set md \<and> metricValue lib row metric = Some v
            \<and> GetMetricType lib metric mt = Inr vt
            \<and> s = \<lparr>fqName = metricName lib ctx f row metric, helpStr = hlp,
                    variableLabels = labels, valueType = vt, sampleValue = v,
                    labelValues = ?lv\<rparr>)"
    by blast
  have new: "?new = ss" using new_sends[OF ev] .
  have part1: "\<forall>s \<in> set ?new. \<exists>(metric, hlp) \<in> set md.
         helpStr s = hlp \<and> metricValue lib row metric = Some (sampleValue s)
         \<and> GetMetricType lib metric mt = Inr (valueType s)
         \<and> fqName s = BuildFQName ''oracledb'' ctx
                         (if f = '''' then metric else cleanName lib (mapIndex row f))"
  proof
    fix s assume "s \<in> set ?new"
    with new each obtain metric hlp v vt where
      m: "(metric, hlp) \<in> set md" and v: "metricValue lib row metric = Some v"
      and t: "GetMetricType lib metric mt = Inr vt"
      and s: "s = \<lparr>fqName = metricName lib ctx f row metric, helpStr = hlp,
                    variableLabels = labels, valueType = vt, sampleValue = v,
                    labelValues = ?lv\<rparr>"
      by blast
    from s v t nm[of metric]
    have "helpStr s = hlp \<and> metricValue lib row metric = Some (sampleValue s)
         \<and> GetMetricType lib metric mt = Inr (valueType s)
         \<and> fqName s = BuildFQName ''oracledb'' ctx
                         (if f = '''' then metric else cleanName lib (mapIndex row f))"
      by simp
    with m show "\<exists>(metric, hlp) \<in> set md.
         helpStr s = hlp \<and> metricValue lib row metric = Some (sampleValue s)
         \<and> GetMetricType lib metric mt = Inr (valueType s)
         \<and> fqName s = BuildFQName ''oracledb'' ctx
                         (if f = '''' then metric else cleanName lib (mapIndex row f))"
      by blast
  qed
  have part2: "map (\<lambda>s. (fqName s, helpStr s)) ?new
        = map (\<lambda>(metric, hlp).
                 (BuildFQName ''oracledb'' ctx
                    (if f = '''' then metric else cleanName lib (mapIndex row f)), hlp))
            (filter (\<lambda>(metric, hlp). metricValue lib row metric \<noteq> None) md)"
    if ret: "snd (genericParser lib env ctx labels md mt f row st) = Returns None"
  proof -
    from ret have ne: "labels \<noteq> []" by (auto simp: genericParser_def)
    with ret have "snd (metricsDescLoop lib ctx labels mt f row ?lv md st) = Returns None"
      by (simp add: genericParser_def)
    from metricsDescLoop_names[OF this] ne
    have "map (\<lambda>s. (fqName s, helpStr s)) (sends (events ?st'))
          = map (\<lambda>s. (fqName s, helpStr s)) (sends (events st))
            @ map (\<lambda>(metric, hlp). (metricName lib ctx f row metric, hlp))
                (filter (\<lambda>(metric, hlp). metricValue lib row metric \<noteq> None) md)"
      by (simp add: genericParser_def)
    then have "map (\<lambda>s. (fqName s, helpStr s)) ss
          = map (\<lambda>(metric, hlp). (metricName lib ctx f row metric, hlp))
                (filter (\<lambda>(metric, hlp). metricValue lib row metric \<noteq> None) md)"
      using ev by (simp add: sends_append sends_map_Send)
    with new show ?thesis by (simp add: nm)
  qed
  have part4: "\<forall>name. ctx \<noteq> '''' \<and> name \<noteq> '''' \<longrightarrow>
         BuildFQName ''oracledb'' ctx name = ''oracledb_'' @ ctx @ ''_'' @ name"
    by (simp add: BuildFQName_def)
  from part1 part2 part4 cleanName_chars[of lib] show ?thesis by blast
qed

text \<open>
  C5 amended, at a row with the columns \<open>active\<close> and \<open>inactive\<close>, parsed after an earlier
  row has been sent.
\<close>

theorem sample_name_amended_witness:
  "snd (genericParser
      \<lparr>strconv_ParseFloat = (\<lambda>s. if s = ''42'' then Some (42::int)
                                   else if s = ''7'' then Some 7 else None),
        float64 = (\<lambda>n. n), unicode_ToLower = (\<lambda>s. s),
        MustNewConstMetric_panics = (\<lambda>n h ls vs. False)\<rparr>
      ''DB1'' ''sessions'' [''sid'']
      [(''active'', ''Active sessions''), (''inactive'', ''Inactive sessions'')] Map.empty ''''
      [''active'' \<mapsto> ''42'', ''inactive'' \<mapsto> ''7'']
      \<lparr>events = [DB_QueryContext 0 ''SELECT active, inactive FROM s'',
                  Send \<lparr>fqName = ''oracledb_sessions_active'', helpStr = ''Active sessions'',
                        variableLabels = [''sid''], valueType = GaugeValue, sampleValue = 1,
                        labelValues = [''DB1'']\<rparr>],
        metricsCount = 1\<rparr>) = Returns None
   \<and> map (\<lambda>s. (fqName s, helpStr s))
       (drop 1 (sends (events (fst (genericParser
      \<lparr>strconv_ParseFloat = (\<lambda>s. if s = ''42'' then Some (42::int)
                                   else if s = ''7'' then Some 7 else None),
        float64 = (\<lambda>n. n), unicode_ToLower = (\<lambda>s. s),
        MustNewConstMetric_panics = (\<lambda>n h ls vs. False)\<rparr>
      ''DB1'' ''sessions'' [''sid'']
      [(''active'', ''Active sessions''), (''inactive'', ''Inactive sessions'')] Map.empty ''''
      [''active'' \<mapsto> ''42'', ''inactive'' \<mapsto> ''7'']
      \<lparr>events = [DB_QueryContext 0 ''SELECT active, inactive FROM s'',
                  Send \<lparr>fqName = ''oracledb_sessions_active'', helpStr = ''Active sessions'',
                        variableLabels = [''sid''], valueType = GaugeValue, sampleValue = 1,
                        labelValues = [''DB1'']\<rparr>],
        metricsCount = 1\<rparr>)))))
     = [(''oracledb_sessions_active'', ''Active sessions''),
        (''oracledb_sessions_inactive'', ''Inactive sessions'')]"
proof -
  let ?lib = "\<lparr>strconv_ParseFloat = (\<lambda>s. if s = ''42'' then Some (42::int)
                                   else if s = ''7'' then Some 7 else None),
        float64 = (\<lambda>n. n), unicode_ToLower = (\<lambda>s. s),
        MustNewConstMetric_panics = (\<lambda>n h ls vs. False)\<rparr>"
  let ?md = "[(''active'', ''Active sessions''), (''inactive'', ''Inactive sessions'')]"
  let ?row = "[''active'' \<mapsto> ''42'', ''inactive'' \<mapsto> ''7'']"
  let ?st = "\<lparr>events = [DB_QueryContext 0 ''SELECT active, inactive FROM s'',
                  Send \<lparr>fqName = ''oracledb_sessions_active'', helpStr = ''Active sessions'',
                        variableLabels = [''sid''], valueType = GaugeValue, sampleValue = 1::int,
                        labelValues = [''DB1'']\<rparr>],
        metricsCount = 1\<rparr>"
  let ?g = "genericParser ?lib ''DB1'' ''sessions'' [''sid''] ?md Map.empty '''' ?row ?st"
  have h: "snd ?g = Returns None" by code_simp
  have l: "length (sends (events ?st)) = 1" by simp
  have rhs: "map (\<lambda>(metric, hlp).
                 (BuildFQName ''oracledb'' ''sessions''
                    (if '''' = '''' then metric else cleanName ?lib (mapIndex ?row '''')), hlp))
            (filter (\<lambda>(metric, hlp). metricValue ?lib ?row metric \<noteq> None) ?md)
        = [(''oracledb_sessions_active'', ''Active sessions''),
           (''oracledb_sessions_inactive'', ''Inactive sessions'')]"
    by code_simp
  note names = sample_name_amended[of ?st ?lib "''DB1''" "''sessions''" "[''sid'']" ?md
                 Map.empty "''''" ?row, THEN conjunct2, THEN conjunct1, THEN mp, OF h]
  from names[unfolded l] rhs
  have "map (\<lambda>s. (fqName s, helpStr s)) (drop 1 (sends (events (fst ?g))))
        = [(''oracledb_sessions_active'', ''Active sessions''),
           (''oracledb_sessions_inactive'', ''Inactive sessions'')]"
    by (rule trans)
  with h show ?thesis by (rule conjI)
qed

section \<open>The label values of a sample\<close>

text \<open>
  \<open>NewExporter\<close> appends the label \<open>sid\<close> to every definition, so the label list that
  \<open>genericParser\<close> slices is never empty.
\<close>

lemma NewExporter_metric_Labels:
  "Labels (NewExporter_metric metric) \<noteq> [] \<and> last (Labels (NewExporter_metric metric)) = ''sid''"
  by (simp add: NewExporter_metric_def)

text \<open>
  C2. For every row and every definition with \<open>N\<close> label names, each sample that
  \<open>genericParser\<close> sends for the row, in whatever state it is called (after any number of
  earlier rows and samples), carries exactly \<open>N\<close> label values, under the definition's own
  label names: the last is the target identifier, and value \<open>i\<close> of the first \<open>N - 1\<close> is the
  row's value for label \<open>i\<close>, the empty string when the row has no such column.
\<close>

theorem label_values_aligned:
  assumes "s \<in> set (drop (length (sends (events st)))
                      (sends (events (fst (genericParser lib env ctx labels md mt f row st)))))"
  shows "length (labelValues s) = length labels
         \<and> last (labelValues s) = env
         \<and> (\<forall>i < length labels - 1.
               labelValues s ! i = (case row (labels ! i) of None \<Rightarrow> '''' | Some v \<Rightarrow> v))
         \<and> variableLabels s = labels"
proof -
  let ?lv = "map (mapIndex row) (take (length labels - 1) labels) @ [env]"
  from genericParser_sent[of lib env ctx labels md mt f row st] obtain ss where
    ev: "events (fst (genericParser lib env ctx labels md mt f row st)) = events st @ map Send ss"
    and each: "\<forall>s \<in> set ss. labels \<noteq> [] \<and> (\<exists>metric hlp v vt.
            (metric, hlp) \<in> set md \<and> metricValue lib row metric = Some v
            \<and> GetMetricType lib metric mt = Inr vt
            \<and> s = \<lparr>fqName = metricName lib ctx f row metric, helpStr = hlp,
                    variableLabels = labels, valueType = vt, sampleValue = v,
                    labelValues = ?lv\<rparr>)"
    by blast
  from assms new_sends[OF ev] have "s \<in> set ss" by simp
  with each have ne: "labels \<noteq> []" and lv: "labelValues s = ?lv"
    and vl: "variableLabels s = labels" by auto
  have len: "length (labelValues s) = length labels" using ne lv by (cases labels) simp_all
  have lst: "last (labelValues s) = env" using lv by simp
  have nth: "labelValues s ! i = (case row (labels ! i) of None \<Rightarrow> '''' | Some v \<Rightarrow> v)"
    if "i < length labels - 1" for i
    using that lv by (simp add: nth_append mapIndex_def)
  from len lst nth vl show ?thesis by blast
qed

text \<open>
  C2, at a definition with the labels \<open>status\<close>, \<open>type\<close>, \<open>sid\<close> and a row that has no
  column \<open>type\<close>, parsed after an earlier row has been sent.
\<close>

theorem label_values_aligned_witness:
  "\<lparr>fqName = ''oracledb_sessions_value'', helpStr = ''Sessions'',
     variableLabels = [''status'', ''type'', ''sid''],
     valueType = GaugeValue, sampleValue = 42::int, labelValues = [''ACTIVE'', '''', ''DB1'']\<rparr>
   \<in> set (drop 1 (sends (events (fst (genericParser
      \<lparr>strconv_ParseFloat = (\<lambda>s. if s = ''42'' then Some (42::int) else None),
        float64 = (\<lambda>n. n), unicode_ToLower = (\<lambda>s. s),
        MustNewConstMetric_panics = (\<lambda>n h ls vs. False)\<rparr>
      ''DB1'' ''sessions'' [''status'', ''type'', ''sid'']
      [(''value'', ''Sessions'')] Map.empty ''''
      [''status'' \<mapsto> ''ACTIVE'', ''value'' \<mapsto> ''42'']
      \<lparr>events = [DB_QueryContext 0 ''SELECT status, value FROM s'',
                  Send \<lparr>fqName = ''oracledb_sessions_value'', helpStr = ''Sessions'',
                        variableLabels = [''status'', ''type'', ''sid''],
                        valueType = GaugeValue, sampleValue = 1,
                        labelValues = [''INACTIVE'', '''', ''DB1'']\<rparr>],
        metricsCount = 1\<rparr>)))))
   \<and> length [''ACTIVE'', '''', ''DB1''] = length [''status'', ''type'', ''sid'']
   \<and> last [''ACTIVE'', '''', ''DB1''] = ''DB1''"
proof -
  let ?s = "\<lparr>fqName = ''oracledb_sessions_value'', helpStr = ''Sessions'',
     variableLabels = [''status'', ''type'', ''sid''],
     valueType = GaugeValue, sampleValue = 42::int, labelValues = [''ACTIVE'', '''', ''DB1'']\<rparr>"
  let ?lib = "\<lparr>strconv_ParseFloat = (\<lambda>s. if s = ''42'' then Some (42::int) else None),
        float64 = (\<lambda>n. n), unicode_ToLower = (\<lambda>s. s),
        MustNewConstMetric_panics = (\<lambda>n h ls vs. False)\<rparr>"
  let ?st = "\<lparr>events = [DB_QueryContext 0 ''SELECT status, value FROM s'',
                  Send \<lparr>fqName = ''oracledb_sessions_value'', helpStr = ''Sessions'',
                        variableLabels = [''status'', ''type'', ''sid''],
                        valueType = GaugeValue, sampleValue = 1::int,
                        labelValues = [''INACTIVE'', '''', ''DB1'']\<rparr>],
        metricsCount = 1\<rparr>"
  let ?g = "genericParser ?lib ''DB1'' ''sessions'' [''status'', ''type'', ''sid'']
      [(''value'', ''Sessions'')] Map.empty ''''
      [''status'' \<mapsto> ''ACTIVE'', ''value'' \<mapsto> ''42''] ?st"
  have l: "length (sends (events ?st)) = 1" by simp
  have "?s \<in> set (drop 1 (sends (events (fst ?g))))" by code_simp
  with l have h: "?s \<in> set (drop (length (sends (events ?st))) (sends (events (fst ?g))))"
    by simp
  from label_values_aligned[OF h] h l show ?thesis by simp
qed

text \<open>
  The same over a whole query: every sample sent while a definition is scraped carries the
  definition's label names, as many values, the target identifier last, and the values of
  one scanned row before it.
\<close>

lemma rowsLoop_sent_from:
  assumes parse: "\<And>row st. \<exists>ss. events (fst (parse row st)) = events st @ map Send ss
                     \<and> (\<forall>s \<in> set ss. P row s)"
  shows "\<exists>ss. events (fst (rowsLoop lib parse cols rs st)) = events st @ map Send ss
            \<and> (\<forall>s \<in> set ss. \<exists>vals. Scanned vals \<in> set rs \<and> P (rowMap lib cols vals) s)"
proof (induction rs arbitrary: st)
  case Nil
  show ?case by (intro exI[of _ "[]"]) simp
next
  case (Cons x rest)
  show ?case
  proof (cases x)
    case (ScanError e)
    then show ?thesis by (intro exI[of _ "[]"]) simp
  next
    case NextPanics
    then show ?thesis by (intro exI[of _ "[]"]) simp
  next
    case (Scanned vals)
    obtain st' r where pr: "parse (rowMap lib cols vals) st = (st', r)"
      by (cases "parse (rowMap lib cols vals) st")
    from parse[of "rowMap lib cols vals" st] pr obtain ss where
      ss: "events st' = events st @ map Send ss" "\<forall>s \<in> set ss. P (rowMap lib cols vals) s"
      by auto
    show ?thesis
    proof (cases "r = Returns None")
      case True
      from Cons.IH[of st'] obtain ss' where
        ss': "events (fst (rowsLoop lib parse cols rest st')) = events st' @ map Send ss'"
        "\<forall>s \<in> set ss'. \<exists>vals. Scanned vals \<in> set rest \<and> P (rowMap lib cols vals) s"
        by blast
      have "\<forall>s \<in> set (ss @ ss'). \<exists>vals. Scanned vals \<in> set (x # rest) \<and> P (rowMap lib cols vals) s"
        using ss(2) ss'(2) Scanned by auto
      moreover have "events (fst (rowsLoop lib parse cols (x # rest) st))
                     = events st @ map Send (ss @ ss')"
        using Scanned pr True ss(1) ss'(1) by simp
      ultimately show ?thesis by blast
    next
      case False
      then have "rowsLoop lib parse cols (Scanned vals # rest) st = (st', r)"
        using pr by (cases r) (auto split: option.splits)
      moreover have "\<forall>s \<in> set ss. \<exists>vals. Scanned vals \<in> set (x # rest) \<and> P (rowMap lib cols vals) s"
        using ss(2) Scanned by auto
      ultimately show ?thesis using Scanned ss(1) by (intro exI[of _ ss]) simp
    qed
  qed
qed

lemma ScrapeMetric_label_values:
  assumes "s \<in> set (sends (fst (ScrapeMetric lib w env (Some h) m)))"
  shows "length (labelValues s) = length (Labels m)
         \<and> last (labelValues s) = env
         \<and> variableLabels s = Labels m
         \<and> (\<exists>vals. Scanned vals \<in> set (rows_Next (db_QueryContext w h (Request m)))
              \<and> (\<forall>i < length (Labels m) - 1.
                    labelValues s ! i =
                      mapIndex (rowMap lib (case rows_Columns (db_QueryContext w h (Request m)) of
                                              Inl e \<Rightarrow> [] | Inr cs \<Rightarrow> cs) vals)
                        (Labels m ! i)))"
proof -
  let ?parse = "genericParser lib env (Context m) (Labels m) (MetricsDesc m) (MetricsType m)
                  (FieldToAppend m)"
  let ?reply = "db_QueryContext w h (Request m)"
  let ?cols = "case rows_Columns ?reply of Inl e \<Rightarrow> [] | Inr cs \<Rightarrow> cs"
  let ?st0 = "\<lparr>events = [], metricsCount = 0\<rparr> :: 'a parser"
  let ?st1 = "?st0\<lparr>events := events ?st0 @ [DB_QueryContext h (Request m)]\<rparr>"
  let ?P = "\<lambda>row s. length (labelValues s) = length (Labels m)
         \<and> last (labelValues s) = env \<and> variableLabels s = Labels m
         \<and> (\<forall>i < length (Labels m) - 1. labelValues s ! i = mapIndex row (Labels m ! i))"
  have parse: "\<exists>ss. events (fst (?parse row st)) = events st @ map Send ss
                 \<and> (\<forall>s \<in> set ss. ?P row s)" for row st
  proof -
    let ?lv = "map (mapIndex row) (take (length (Labels m) - 1) (Labels m)) @ [env]"
    from genericParser_sent[of lib env "Context m" "Labels m" "MetricsDesc m" "MetricsType m"
           "FieldToAppend m" row st]
    obtain ss where ev: "events (fst (?parse row st)) = events st @ map Send ss"
      and each: "\<forall>s \<in> set ss. Labels m \<noteq> [] \<and> (\<exists>metric hlp v vt.
            (metric, hlp) \<in> set (MetricsDesc m) \<and> metricValue lib row metric = Some v
            \<and> GetMetricType lib metric (MetricsType m) = Inr vt
            \<and> s = \<lparr>fqName = metricName lib (Context m) (FieldToAppend m) row metric,
                    helpStr = hlp, variableLabels = Labels m, valueType = vt, sampleValue = v,
                    labelValues = ?lv\<rparr>)"
      by blast
    have "?P row s'" if "s' \<in> set ss" for s'
    proof -
      from that each have ne: "Labels m \<noteq> []" and lv: "labelValues s' = ?lv"
        and vl: "variableLabels s' = Labels m" by auto
      have len: "length (labelValues s') = length (Labels m)"
        using ne lv by (cases "Labels m") simp_all
      have lst: "last (labelValues s') = env" using lv by simp
      have nth: "labelValues s' ! i = mapIndex row (Labels m ! i)"
        if "i < length (Labels m) - 1" for i
        using that lv by (simp add: nth_append)
      from len lst vl nth show ?thesis by blast
    qed
    with ev show ?thesis by blast
  qed
  show ?thesis
  proof (cases "ctx_Err ?reply = DeadlineExceeded \<or> queryErr ?reply \<noteq> None")
    case True
    then have "fst (ScrapeMetric lib w env (Some h) m) = [DB_QueryContext h (Request m)]"
      by (auto simp: ScrapeMetric_def ScrapeGenericValues_fst GeneratePrometheusMetrics_def Let_def)
    with assms show ?thesis by simp
  next
    case False
    then have fs: "fst (ScrapeMetric lib w env (Some h) m)
                   = events (fst (rowsLoop lib ?parse ?cols (rows_Next ?reply) ?st1))"
      by (auto simp: ScrapeMetric_def ScrapeGenericValues_fst GeneratePrometheusMetrics_def Let_def)
    from rowsLoop_sent_from[of ?parse ?P lib ?cols "rows_Next ?reply" ?st1, OF parse]
    obtain ss where
      ev: "events (fst (rowsLoop lib ?parse ?cols (rows_Next ?reply) ?st1)) = events ?st1 @ map Send ss"
      and each: "\<forall>s \<in> set ss. \<exists>vals. Scanned vals \<in> set (rows_Next ?reply)
                    \<and> ?P (rowMap lib ?cols vals) s"
      by blast
    from assms fs ev have "s \<in> set ss" by (simp add: sends_append sends_map_Send)
    with each show ?thesis by blast
  qed
qed

section \<open>The value of a timestamp column\<close>

text \<open>
  C3 at the input where the exporter departs from it. The text \<open>2020/01/23:16:00:03\<close> is
  not a number, so it is parsed with the layout \<open>oracleDate\<close>; the sample value is
  1579795203, the epoch seconds of 16:00:03 UTC on that day, whatever the time zone of the
  host: \<open>time.Parse\<close> reads a text without a zone as UTC, and only
  \<open>time.ParseInLocation\<close> with \<open>time.Local\<close> would read it as local time. On a host one
  hour east of UTC the local reading that C3 and the comment in the source describe is
  1579791603.
\<close>

theorem oracle_date_read_as_utc:
  "map sampleValue (sends (events (fst (genericParser
      \<lparr>strconv_ParseFloat = (\<lambda>s. None), float64 = (\<lambda>n. n), unicode_ToLower = (\<lambda>s. s),
        MustNewConstMetric_panics = (\<lambda>n h ls vs. False)\<rparr>
      ''DB1'' ''backup'' [''sid'']
      [(''last_backup'', ''Time of the last backup'')] Map.empty ''''
      [''last_backup'' \<mapsto> ''2020/01/23:16:00:03'']
      \<lparr>events = [], metricsCount = 0\<rparr>)))) = [1579795203::int]"
  by code_simp

section \<open>A ping that fails\<close>

text \<open>
  C1 at the input where the exporter departs from it. The ping fails with
  \<open>ORA-12541: TNS:no listener\<close>, which does not contain \<open>sql: database is closed\<close>. No
  branch handles this error: the up indicator is set to 1, the handle is not closed, and
  the configured definition is queried.
\<close>

theorem ping_failure_still_scrapes:
  "trace (scrapeEnv
      \<lparr>strconv_ParseFloat = (\<lambda>s. if s = ''42'' then Some (42::int) else None),
        float64 = (\<lambda>n. n), unicode_ToLower = (\<lambda>s. s),
        MustNewConstMetric_panics = (\<lambda>n h ls vs. False)\<rparr>
      \<lparr>db_Ping = (\<lambda>h. Some ''ORA-12541: TNS:no listener''),
        sql_Open = (\<lambda>d. (None, Some ''unreachable'')),
        db_QueryContext = (\<lambda>h q. \<lparr>ctx_Err = ctxNil, queryErr = None,
             rows_Columns = Inr [''VALUE''], rows_Next = [Scanned [''42'']],
             rows_Err = None\<rparr>)\<rparr>
      [\<lparr>Context = ''sessions'', Labels = [''sid''], MetricsType = Map.empty,
        MetricsDesc = [(''value'', ''Sessions'')], FieldToAppend = '''',
        Request = ''SELECT 42 AS value FROM dual'', IgnoreZeroResult = False\<rparr>]
      \<lparr>sid = ''DB1'', dsn = ''u/p@host:1521/DB1'', db = Some 0\<rparr>)
   = [TotalScrapes_Inc ''DB1'', DB_Ping 0, Up_Set ''DB1'' 1,
      DB_QueryContext 0 ''SELECT 42 AS value FROM dual'',
      Send \<lparr>fqName = ''oracledb_sessions_value'', helpStr = ''Sessions'',
            variableLabels = [''sid''], valueType = GaugeValue, sampleValue = 42,
            labelValues = [''DB1'']\<rparr>,
      Duration_Set ''DB1'', Err_Set ''DB1'' 0, Wg_Done]"
  by code_simp

section \<open>The last-scrape-error indicator\<close>

text \<open>
  C4 at the input where the exporter departs from it. Of two definitions the first fails
  (its table is missing; the error counter of that definition is incremented) and the second
  succeeds. Each \<open>ScrapeMetric\<close> call overwrites the variable \<open>err\<close> that the deferred
  function reads, so the indicator is set to 0 although a definition produced an error.
\<close>

theorem last_scrape_error_overwritten:
  "trace (scrapeEnv
      \<lparr>strconv_ParseFloat = (\<lambda>s. if s = ''42'' then Some (42::int) else None),
        float64 = (\<lambda>n. n), unicode_ToLower = (\<lambda>s. s),
        MustNewConstMetric_panics = (\<lambda>n h ls vs. False)\<rparr>
      \<lparr>db_Ping = (\<lambda>h. None),
        sql_Open = (\<lambda>d. (None, Some ''unreachable'')),
        db_QueryContext = (\<lambda>h q.
           if q = ''SELECT n FROM missing'' then
             \<lparr>ctx_Err = ctxNil, queryErr = Some ''ORA-00942: table or view does not exist'',
              rows_Columns = Inr [], rows_Next = [], rows_Err = None\<rparr>
           else \<lparr>ctx_Err = ctxNil, queryErr = None,
                 rows_Columns = Inr [''VALUE''], rows_Next = [Scanned [''42'']],
                 rows_Err = None\<rparr>)\<rparr>
      [\<lparr>Context = ''missing'', Labels = [''sid''], MetricsType = Map.empty,
        MetricsDesc = [(''n'', ''Rows'')], FieldToAppend = '''',
        Request = ''SELECT n FROM missing'', IgnoreZeroResult = False\<rparr>,
       \<lparr>Context = ''sessions'', Labels = [''sid''], MetricsType = Map.empty,
        MetricsDesc = [(''value'', ''Sessions'')], FieldToAppend = '''',
        Request = ''SELECT 42 AS value FROM dual'', IgnoreZeroResult = False\<rparr>]
      \<lparr>sid = ''DB1'', dsn = ''u/p@host:1521/DB1'', db = Some 0\<rparr>)
   = [TotalScrapes_Inc ''DB1'', DB_Ping 0, Up_Set ''DB1'' 1,
      DB_QueryContext 0 ''SELECT n FROM missing'',
      ScrapeErrors_Inc ''missing'' ''DB1'',
      DB_QueryContext 0 ''SELECT 42 AS value FROM dual'',
      Send \<lparr>fqName = ''oracledb_sessions_value'', helpStr = ''Sessions'',
            variableLabels = [''sid''], valueType = GaugeValue, sampleValue = 42,
            labelValues = [''DB1'']\<rparr>,
      Duration_Set ''DB1'', Err_Set ''DB1'' 0, Wg_Done]"
  by code_simp

section \<open>An error of \<open>rows.Columns\<close>\<close>

text \<open>
  C7 at the input where the exporter departs from it. The deadline closes the rows after
  \<open>QueryContext\<close> has returned and the context has been tested: \<open>rows.Columns()\<close> returns
  an error and there is no row to read. The error is assigned to \<open>err\<close> and never tested:
  the decoder returns no error.
\<close>

theorem columns_error_dropped:
  "GeneratePrometheusMetrics
      \<lparr>strconv_ParseFloat = (\<lambda>s. if s = ''42'' then Some (42::int) else None),
        float64 = (\<lambda>n. n), unicode_ToLower = (\<lambda>s. s),
        MustNewConstMetric_panics = (\<lambda>n h ls vs. False)\<rparr>
      \<lparr>db_Ping = (\<lambda>h. None),
        sql_Open = (\<lambda>d. (None, Some ''unreachable'')),
        db_QueryContext = (\<lambda>h q. \<lparr>ctx_Err = ctxNil, queryErr = None,
             rows_Columns = Inl ''sql: Rows are closed'', rows_Next = [],
             rows_Err = Some ''context deadline exceeded''\<rparr>)\<rparr>
      (Some 0)
      (genericParser
         \<lparr>strconv_ParseFloat = (\<lambda>s. if s = ''42'' then Some (42::int) else None),
           float64 = (\<lambda>n. n), unicode_ToLower = (\<lambda>s. s),
           MustNewConstMetric_panics = (\<lambda>n h ls vs. False)\<rparr>
         ''DB1'' ''sessions'' [''sid''] [(''value'', ''Sessions'')] Map.empty '''')
      ''SELECT 42 AS value FROM dual'' \<lparr>events = [], metricsCount = 0\<rparr>
   = (\<lparr>events = [DB_QueryContext 0 ''SELECT 42 AS value FROM dual''], metricsCount = 0\<rparr>,
      Returns None)"
  by code_simp

section \<open>A definition without samples\<close>

text \<open>
  C9. When the decoder returns no error for a definition on a target, the scrape of the
  definition reports an error if and only if no sample was sent and \<open>IgnoreZeroResult\<close> is
  false; the loop over the definitions then increments the error counter of that
  (definition, target) pair exactly once, not at all otherwise, and in both cases goes on
  with the remaining definitions.
\<close>

theorem zero_result_error:
  assumes "GeneratePrometheusMetrics lib w conn
             (genericParser lib s (Context m) (Labels m) (MetricsDesc m) (MetricsType m)
                (FieldToAppend m))
             (Request m) \<lparr>events = [], metricsCount = 0\<rparr> = (st, Returns None)"
  shows "ScrapeMetric lib w s conn m =
           (events st,
            Returns (if sends (events st) = [] \<and> \<not> IgnoreZeroResult m
                     then Some ''no metrics found while parsing'' else None))
         \<and> scrapeErrorsIncs (fst (metricsLoop lib w s conn [m] e)) =
             (if sends (events st) = [] \<and> \<not> IgnoreZeroResult m then [(Context m, s)] else [])
         \<and> fst (metricsLoop lib w s conn (m # rest) e) =
             fst (metricsLoop lib w s conn [m] e)
             @ fst (metricsLoop lib w s conn rest
                      (if sends (events st) = [] \<and> \<not> IgnoreZeroResult m
                       then Some ''no metrics found while parsing'' else None))"
proof -
  let ?parse = "genericParser lib s (Context m) (Labels m) (MetricsDesc m) (MetricsType m)
                  (FieldToAppend m)"
  let ?st0 = "\<lparr>events = [], metricsCount = 0\<rparr> :: 'a parser"
  let ?eo = "if sends (events st) = [] \<and> \<not> IgnoreZeroResult m
             then Some ''no metrics found while parsing'' else None"
  obtain h where h: "conn = Some h"
    using assms by (cases conn) (simp_all add: GeneratePrometheusMetrics_def)
  from GeneratePrometheusMetrics_sent[of ?parse lib w h "Request m" ?st0,
         OF genericParser_only_sends]
  obtain ss where ev: "events st = DB_QueryContext h (Request m) # map Send ss"
    and cnt: "metricsCount st = length ss"
    using assms h by auto
  have snd: "sends (events st) = ss" using ev by (simp add: sends_map_Send)
  have sm: "ScrapeMetric lib w s conn m = (events st, Returns ?eo)"
    using assms cnt snd by (simp add: ScrapeMetric_def ScrapeGenericValues_def)
  have noinc: "scrapeErrorsIncs (events st) = []"
    using ev by (simp add: scrapeErrorsIncs_map_Send)
  have one: "fst (metricsLoop lib w s conn [m] e)
             = events st @ (if ?eo = None then [] else [ScrapeErrors_Inc (Context m) s])"
    using metricsLoop_step[OF sm, of "[]" e] by simp
  have incs: "scrapeErrorsIncs (fst (metricsLoop lib w s conn [m] e)) =
             (if sends (events st) = [] \<and> \<not> IgnoreZeroResult m then [(Context m, s)] else [])"
    using one noinc by (simp add: scrapeErrorsIncs_append)
  have rest: "fst (metricsLoop lib w s conn (m # rest) e) =
             fst (metricsLoop lib w s conn [m] e) @ fst (metricsLoop lib w s conn rest ?eo)"
    using metricsLoop_step[OF sm, of rest e] one by simp
  from sm incs rest show ?thesis by blast
qed

text \<open>
  C9, at a query that returns no row for a definition with \<open>IgnoreZeroResult = false\<close>.
\<close>

theorem zero_result_error_witness:
  "GeneratePrometheusMetrics
      \<lparr>strconv_ParseFloat = (\<lambda>s. if s = ''42'' then Some (42::int) else None),
        float64 = (\<lambda>n. n), unicode_ToLower = (\<lambda>s. s),
        MustNewConstMetric_panics = (\<lambda>n h ls vs. False)\<rparr>
      \<lparr>db_Ping = (\<lambda>h. None), sql_Open = (\<lambda>d. (None, Some ''unreachable'')),
        db_QueryContext = (\<lambda>h q. \<lparr>ctx_Err = ctxNil, queryErr = None,
             rows_Columns = Inr [''VALUE''], rows_Next = [], rows_Err = None\<rparr>)\<rparr>
      (Some 0)
      (genericParser
         \<lparr>strconv_ParseFloat = (\<lambda>s. if s = ''42'' then Some (42::int) else None),
           float64 = (\<lambda>n. n), unicode_ToLower = (\<lambda>s. s),
           MustNewConstMetric_panics = (\<lambda>n h ls vs. False)\<rparr>
         ''DB1'' ''sessions'' [''sid''] [(''value'', ''Sessions'')] Map.empty '''')
      ''SELECT value FROM t'' \<lparr>events = [], metricsCount = 0\<rparr>
   = (\<lparr>events = [DB_QueryContext 0 ''SELECT value FROM t''], metricsCount = 0\<rparr>, Returns None)
   \<and> ScrapeMetric
      \<lparr>strconv_ParseFloat = (\<lambda>s. if s = ''42'' then Some (42::int) else None),
        float64 = (\<lambda>n. n), unicode_ToLower = (\<lambda>s. s),
        MustNewConstMetric_panics = (\<lambda>n h ls vs. False)\<rparr>
      \<lparr>db_Ping = (\<lambda>h. None), sql_Open = (\<lambda>d. (None, Some ''unreachable'')),
        db_QueryContext = (\<lambda>h q. \<lparr>ctx_Err = ctxNil, queryErr = None,
             rows_Columns = Inr [''VALUE''], rows_Next = [], rows_Err = None\<rparr>)\<rparr>
      ''DB1'' (Some 0)
      \<lparr>Context = ''sessions'', Labels = [''sid''], MetricsType = Map.empty,
        MetricsDesc = [(''value'', ''Sessions'')], FieldToAppend = '''',
        Request = ''SELECT value FROM t'', IgnoreZeroResult = False\<rparr>
     = ([DB_QueryContext 0 ''SELECT value FROM t''],
        Returns (Some ''no metrics found while parsing''))"
proof -
  let ?lib = "\<lparr>strconv_ParseFloat = (\<lambda>s. if s = ''42'' then Some (42::int) else None),
        float64 = (\<lambda>n. n), unicode_ToLower = (\<lambda>s. s),
        MustNewConstMetric_panics = (\<lambda>n h ls vs. False)\<rparr>"
  let ?w = "\<lparr>db_Ping = (\<lambda>h. None), sql_Open = (\<lambda>d. (None, Some ''unreachable'')),
        db_QueryContext = (\<lambda>h q. \<lparr>ctx_Err = ctxNil, queryErr = None,
             rows_Columns = Inr [''VALUE''], rows_Next = [], rows_Err = None\<rparr>)\<rparr>"
  let ?m = "\<lparr>Context = ''sessions'', Labels = [''sid''], MetricsType = Map.empty,
        MetricsDesc = [(''value'', ''Sessions'')], FieldToAppend = '''',
        Request = ''SELECT value FROM t'', IgnoreZeroResult = False\<rparr>"
  let ?st = "\<lparr>events = [DB_QueryContext 0 ''SELECT value FROM t''], metricsCount = 0\<rparr> :: int parser"
  have h: "GeneratePrometheusMetrics ?lib ?w (Some 0)
             (genericParser ?lib ''DB1'' (Context ?m) (Labels ?m) (MetricsDesc ?m)
                (MetricsType ?m) (FieldToAppend ?m))
             (Request ?m) \<lparr>events = [], metricsCount = 0\<rparr> = (?st, Returns None)"
    by code_simp
  from zero_result_error[OF h] h show ?thesis by simp
qed

section \<open>Reconnecting\<close>




end
